theory Spec2Isabelle
  imports Main
begin

section \<open>The data model of timesketch/apps/sketch/models.py\<close>

text \<open>
  The module declares Django models. Two of them, \<open>Sketch\<close> and \<open>Timeline\<close>, carry an
  owner and a generic relation \<open>acl\<close> to \<open>AccessControlEntry\<close>; the module-level
  functions \<open>ace_is_public\<close>, \<open>ace_make_public\<close>, \<open>ace_make_private\<close>,
  \<open>ace_can_read\<close> and \<open>ace_can_write\<close> work on any such object.

  A user is identified by the primary key of its row (Django compares model instances
  by primary key), so a user is a \<open>nat\<close> and the nullable foreign key
  \<open>AccessControlEntry.user\<close> is a \<open>nat option\<close>, \<open>None\<close> being Python's \<open>None\<close>.
  The generic foreign key of an entry is the pair \<open>content_type\<close>, \<open>object_id\<close>.
\<close>

datatype model_class = Sketch | Timeline

record resource =
  model :: model_class
  pk :: nat
  owner :: nat

record ace =
  ace_pk :: nat
  user :: "nat option"
  permission_read :: bool
  permission_write :: bool
  permission_delete :: bool
  content_type :: model_class
  object_id :: nat
  created :: nat
  updated :: nat

text \<open>
  The database table of access control entries, with the counter from which the
  database draws the primary key of the next inserted row.
\<close>

record store =
  rows :: "ace list"
  next_pk :: nat

text \<open>The exceptions that the functions of the module can meet.\<close>

datatype exn = ObjectDoesNotExist | MultipleObjectsReturned | AttributeError

section \<open>The related manager \<open>object.acl\<close>\<close>

text \<open>\<open>object.acl.all()\<close>: the entries whose generic foreign key points at the object.\<close>

definition acl :: "store \<Rightarrow> resource \<Rightarrow> ace list" where
  "acl s obj = filter (\<lambda>a. content_type a = model obj \<and> object_id a = pk obj) (rows s)"

text \<open>
  \<open>object.acl.get(**kwargs)\<close>: the keyword arguments are a predicate \<open>P\<close> on rows.
  Django returns the row when exactly one matches, raises \<open>ObjectDoesNotExist\<close> when
  none does and \<open>MultipleObjectsReturned\<close> when several do.
\<close>

definition acl_get :: "store \<Rightarrow> resource \<Rightarrow> (ace \<Rightarrow> bool) \<Rightarrow> exn + ace" where
  "acl_get s obj P =
     (case filter P (acl s obj) of
        [] \<Rightarrow> Inl ObjectDoesNotExist
      | [a] \<Rightarrow> Inr a
      | _ # _ # _ \<Rightarrow> Inl MultipleObjectsReturned)"

text \<open>
  \<open>object.acl.create(user=u, permission_read=r)\<close>: inserts a row for the object; the
  fields that are not given take their declared defaults (\<open>False\<close> for the write and
  delete permissions), \<open>created\<close> and \<open>updated\<close> take the current time \<open>now\<close>.
\<close>

definition acl_create :: "store \<Rightarrow> resource \<Rightarrow> nat option \<Rightarrow> bool \<Rightarrow> nat \<Rightarrow> store" where
  "acl_create s obj u r now =
     s\<lparr>rows := rows s @
          [\<lparr>ace_pk = next_pk s, user = u, permission_read = r, permission_write = False,
            permission_delete = False, content_type = model obj, object_id = pk obj,
            created = now, updated = now\<rparr>],
       next_pk := Suc (next_pk s)\<rparr>"

text \<open>\<open>ace.save()\<close> on a fetched entry: updates the row of that primary key; \<open>updated\<close> is set.\<close>

definition ace_save :: "store \<Rightarrow> ace \<Rightarrow> nat \<Rightarrow> store" where
  "ace_save s a now =
     s\<lparr>rows := map (\<lambda>r. if ace_pk r = ace_pk a then a\<lparr>updated := now\<rparr> else r) (rows s)\<rparr>"

text \<open>\<open>ace.delete()\<close>: deletes the row of that primary key.\<close>

definition ace_delete :: "store \<Rightarrow> ace \<Rightarrow> store" where
  "ace_delete s a = s\<lparr>rows := filter (\<lambda>r. ace_pk r \<noteq> ace_pk a) (rows s)\<rparr>"

section \<open>Attribute access on an entry\<close>

text \<open>
  The attributes that an \<open>AccessControlEntry\<close> instance has as data are its declared
  fields (and \<open>pk\<close>, \<open>id\<close>). Reading any other data attribute raises \<open>AttributeError\<close>:
  Django's \<open>Model\<close> has no fallback for unknown names.
\<close>

datatype pyval = PyBool bool | PyNat nat | PyUser "nat option" | PyModel model_class

definition ace_getattr :: "ace \<Rightarrow> string \<Rightarrow> exn + pyval" where
  "ace_getattr a name =
     (if name = ''id'' \<or> name = ''pk'' then Inr (PyNat (ace_pk a))
      else if name = ''user'' then Inr (PyUser (user a))
      else if name = ''permission_read'' then Inr (PyBool (permission_read a))
      else if name = ''permission_write'' then Inr (PyBool (permission_write a))
      else if name = ''permission_delete'' then Inr (PyBool (permission_delete a))
      else if name = ''content_type'' then Inr (PyModel (content_type a))
      else if name = ''object_id'' then Inr (PyNat (object_id a))
      else if name = ''created'' then Inr (PyNat (created a))
      else if name = ''updated'' then Inr (PyNat (updated a))
      else Inl AttributeError)"

text \<open>Python's truth value of such an attribute.\<close>

fun truthy :: "pyval \<Rightarrow> bool" where
  "truthy (PyBool b) = b"
| "truthy (PyNat n) = (n \<noteq> 0)"
| "truthy (PyUser u) = (u \<noteq> None)"
| "truthy (PyModel m) = True"

section \<open>The access functions\<close>

text \<open>
  \<open>ace_is_public\<close> (lines 205-219): \<open>object.acl.get(user=None, permission_read=True)\<close>;
  only \<open>ObjectDoesNotExist\<close> is caught.
\<close>

definition ace_is_public :: "store \<Rightarrow> resource \<Rightarrow> exn + bool" where
  "ace_is_public s obj =
     (case acl_get s obj (\<lambda>a. user a = None \<and> permission_read a = True) of
        Inr a \<Rightarrow> Inr True
      | Inl e \<Rightarrow> (if e = ObjectDoesNotExist then Inr False else Inl e))"

text \<open>\<open>ace_can_write\<close> (lines 284-303).\<close>

definition ace_can_write :: "store \<Rightarrow> resource \<Rightarrow> nat option \<Rightarrow> exn + bool" where
  "ace_can_write s obj u =
     (if Some (owner obj) = u then Inr True
      else
        (case acl_get s obj (\<lambda>a. user a = u \<and> permission_write a = True) of
           Inr a \<Rightarrow> Inr True
         | Inl e \<Rightarrow> (if e = ObjectDoesNotExist then Inr False else Inl e)))"

text \<open>\<open>ace_can_read\<close> (lines 258-281).\<close>

definition ace_can_read :: "store \<Rightarrow> resource \<Rightarrow> nat option \<Rightarrow> exn + bool" where
  "ace_can_read s obj u =
     (if Some (owner obj) = u then Inr True
      else
        (case ace_is_public s obj of
           Inl e \<Rightarrow> Inl e
         | Inr p \<Rightarrow>
             if p then Inr True
             else
               (case acl_get s obj (\<lambda>a. user a = u) of
                  Inl e \<Rightarrow> (if e = ObjectDoesNotExist then Inr False else Inl e)
                | Inr a \<Rightarrow> (if permission_read a then Inr True else Inr False))))"

text \<open>
  \<open>ace_make_public\<close> (lines 222-238). The function returns nothing; the model returns
  the raised exception, if any, and the store it leaves. When the public entry exists
  the source evaluates \<open>ace.read\<close>, an attribute access, before anything is written.
\<close>

definition ace_make_public ::
    "resource \<Rightarrow> nat option \<Rightarrow> nat \<Rightarrow> store \<Rightarrow> (exn + unit) \<times> store" where
  "ace_make_public obj u now s =
     (case ace_can_write s obj u of
        Inl e \<Rightarrow> (Inl e, s)
      | Inr w \<Rightarrow>
          if \<not> w then (Inr (), s)
          else
            (case acl_get s obj (\<lambda>a. user a = None) of
               Inr a \<Rightarrow>
                 (case ace_getattr a ''read'' of
                    Inl e \<Rightarrow> (Inl e, s)
                  | Inr v \<Rightarrow>
                      if \<not> truthy v
                      then (Inr (), ace_save s (a\<lparr>permission_read := True\<rparr>) now)
                      else (Inr (), s))
             | Inl e \<Rightarrow>
                 if e = ObjectDoesNotExist
                 then (Inr (), acl_create s obj None True now)
                 else (Inl e, s)))"

text \<open>\<open>ace_make_private\<close> (lines 241-255).\<close>

definition ace_make_private ::
    "resource \<Rightarrow> nat option \<Rightarrow> store \<Rightarrow> (exn + unit) \<times> store" where
  "ace_make_private obj u s =
     (case ace_can_write s obj u of
        Inl e \<Rightarrow> (Inl e, s)
      | Inr w \<Rightarrow>
          if \<not> w then (Inr (), s)
          else
            (case acl_get s obj (\<lambda>a. user a = None) of
               Inr a \<Rightarrow> (Inr (), ace_delete s a)
             | Inl e \<Rightarrow> if e = ObjectDoesNotExist then (Inr (), s) else (Inl e, s)))"

text \<open>
  The two statements \<open>object.make_public(user); object.make_private(user)\<close> run one
  after the other, the first at time \<open>now\<close>: an exception raised by the first call
  propagates, and the second call is then not run.
\<close>

definition make_public_then_private ::
    "resource \<Rightarrow> nat option \<Rightarrow> nat \<Rightarrow> store \<Rightarrow> (exn + unit) \<times> store" where
  "make_public_then_private obj u now s =
     (case ace_make_public obj u now s of
        (Inl e, s') \<Rightarrow> (Inl e, s')
      | (Inr _, s') \<Rightarrow> ace_make_private obj u s')"

text \<open>
  \<open>Sketch.get_collaborators\<close> (lines 69-79): the loop over \<open>self.acl.all()\<close> adds the
  entry \<open>ace\<close> itself to the set when \<open>ace.user\<close> is not \<open>None\<close> and differs from the owner.
\<close>

definition get_collaborators :: "store \<Rightarrow> resource \<Rightarrow> ace set" where
  "get_collaborators s self =
     fold (\<lambda>a collaborators_set.
             if user a \<noteq> None \<and> \<not> user a = Some (owner self)
             then insert a collaborators_set else collaborators_set)
          (acl s self) {}"

section \<open>The uniqueness invariant\<close>

text \<open>At most one entry per actor on a given object.\<close>

definition acl_unique :: "store \<Rightarrow> resource \<Rightarrow> bool" where
  "acl_unique s obj = distinct (map user (acl s obj))"

text \<open>At most one entry per (object, actor) pair in the whole table.\<close>

definition store_unique :: "store \<Rightarrow> bool" where
  "store_unique s = distinct (map (\<lambda>a. (content_type a, object_id a, user a)) (rows s))"

section \<open>Concrete stores\<close>

text \<open>
  A sketch with primary key 1 owned by user 1, and a constructor for entries on it:
  primary key, actor, read flag, write flag.
\<close>

definition example_sketch :: resource where
  "example_sketch = \<lparr>model = Sketch, pk = 1, owner = 1\<rparr>"

definition sketch_entry :: "nat \<Rightarrow> nat option \<Rightarrow> bool \<Rightarrow> bool \<Rightarrow> ace" where
  "sketch_entry k u r w =
     \<lparr>ace_pk = k, user = u, permission_read = r, permission_write = w,
      permission_delete = False, content_type = Sketch, object_id = 1,
      created = 0, updated = 0\<rparr>"

text \<open>No entries at all.\<close>

definition empty_store :: store where
  "empty_store = \<lparr>rows = [], next_pk = 1\<rparr>"

text \<open>User 2 holds an entry without any permission; the sketch has been made public.\<close>

definition shared_store :: store where
  "shared_store =
     \<lparr>rows = [sketch_entry 1 (Some 2) False False, sketch_entry 2 None True False],
      next_pk = 3\<rparr>"

text \<open>The public entry exists, with its read flag off.\<close>

definition unpublished_store :: store where
  "unpublished_store = \<lparr>rows = [sketch_entry 1 None False False], next_pk = 2\<rparr>"

text \<open>User 2 holds a read-only entry, user 3 a read-write entry; the sketch is private.\<close>

definition team_store :: store where
  "team_store =
     \<lparr>rows = [sketch_entry 1 (Some 2) True False, sketch_entry 2 (Some 3) True True],
      next_pk = 3\<rparr>"

section \<open>Auxiliary facts\<close>

lemmas store_defs = example_sketch_def sketch_entry_def empty_store_def shared_store_def
  unpublished_store_def team_store_def

lemmas model_defs = acl_def acl_get_def acl_unique_def store_unique_def ace_is_public_def
  ace_can_read_def ace_can_write_def ace_make_public_def ace_make_private_def acl_create_def
  ace_delete_def ace_save_def ace_getattr_def get_collaborators_def
  make_public_then_private_def

subsection \<open>Lookups that match at most one row\<close>

lemma filter_key_le1:
  "distinct (map f xs) \<Longrightarrow> length (filter (\<lambda>a. f a = k \<and> Q a) xs) \<le> 1"
proof (induction xs)
  case Nil
  then show ?case by simp
next
  case (Cons x xs)
  show ?case
  proof (cases "f x = k")
    case True
    with Cons.prems have "k \<notin> f ` set xs" by simp
    then have "\<forall>a\<in>set xs. f a \<noteq> k" by blast
    then have "filter (\<lambda>a. f a = k \<and> Q a) xs = []" by (simp add: filter_empty_conv)
    then show ?thesis by simp
  next
    case False
    with Cons show ?thesis by simp
  qed
qed

lemma find_filter_head:
  "find P xs = (case filter P xs of [] \<Rightarrow> None | x # _ \<Rightarrow> Some x)"
  by (induction xs) simp_all

lemma find_is_None: "(find P xs = None) = (\<not> (\<exists>x\<in>set xs. P x))"
  by (induction xs) simp_all

lemma find_SomeD: "find P xs = Some a \<Longrightarrow> a \<in> set xs \<and> P a"
  by (induction xs) (auto split: if_splits)

lemma acl_get_find:
  assumes "length (filter P (acl s obj)) \<le> 1"
  shows "acl_get s obj P =
           (case find P (acl s obj) of None \<Rightarrow> Inl ObjectDoesNotExist | Some a \<Rightarrow> Inr a)"
proof (cases "filter P (acl s obj)")
  case Nil
  then show ?thesis by (simp add: acl_get_def find_filter_head)
next
  case (Cons y zs)
  with assms have "zs = []" by simp
  with Cons show ?thesis by (simp add: acl_get_def find_filter_head)
qed

lemma acl_get_unique:
  assumes "acl_unique s obj"
  shows "acl_get s obj (\<lambda>a. user a = u \<and> Q a) =
           (case find (\<lambda>a. user a = u \<and> Q a) (acl s obj) of
              None \<Rightarrow> Inl ObjectDoesNotExist | Some a \<Rightarrow> Inr a)"
  using assms unfolding acl_unique_def
  by (intro acl_get_find filter_key_le1)

lemma acl_get_unique_user:
  assumes "acl_unique s obj"
  shows "acl_get s obj (\<lambda>a. user a = u) =
           (case find (\<lambda>a. user a = u) (acl s obj) of
              None \<Rightarrow> Inl ObjectDoesNotExist | Some a \<Rightarrow> Inr a)"
  using acl_get_unique [OF assms, of u "\<lambda>a. True"] by simp

lemma acl_get_DoesNotExist:
  "acl_get s obj P = Inl ObjectDoesNotExist \<longleftrightarrow> (\<forall>a\<in>set (acl s obj). \<not> P a)"
proof -
  have "acl_get s obj P = Inl ObjectDoesNotExist \<longleftrightarrow> filter P (acl s obj) = []"
    by (simp add: acl_get_def split: list.splits)
  then show ?thesis by (simp add: filter_empty_conv)
qed

subsection \<open>The read-only functions on a store with unique entries\<close>

lemma is_public_unique:
  assumes "acl_unique s obj"
  shows "ace_is_public s obj = Inr (\<exists>a\<in>set (acl s obj). user a = None \<and> permission_read a)"
proof (cases "find (\<lambda>a. user a = None \<and> permission_read a = True) (acl s obj)")
  case None
  then have "\<not> (\<exists>a\<in>set (acl s obj). user a = None \<and> permission_read a)"
    by (simp add: find_is_None)
  with None show ?thesis
    by (simp add: ace_is_public_def acl_get_unique [OF assms])
next
  case (Some a)
  then have "a \<in> set (acl s obj) \<and> user a = None \<and> permission_read a"
    by (auto dest: find_SomeD)
  then have "\<exists>a\<in>set (acl s obj). user a = None \<and> permission_read a" by blast
  with Some show ?thesis
    by (simp add: ace_is_public_def acl_get_unique [OF assms])
qed

lemma can_write_unique:
  assumes "acl_unique s obj"
  shows "ace_can_write s obj u =
           Inr (Some (owner obj) = u \<or> (\<exists>a\<in>set (acl s obj). user a = u \<and> permission_write a))"
proof (cases "find (\<lambda>a. user a = u \<and> permission_write a = True) (acl s obj)")
  case None
  then have "\<not> (\<exists>a\<in>set (acl s obj). user a = u \<and> permission_write a)"
    by (simp add: find_is_None)
  with None show ?thesis
    by (simp add: ace_can_write_def acl_get_unique [OF assms])
next
  case (Some a)
  then have "a \<in> set (acl s obj) \<and> user a = u \<and> permission_write a"
    by (auto dest: find_SomeD)
  then have "\<exists>a\<in>set (acl s obj). user a = u \<and> permission_write a" by blast
  with Some show ?thesis
    by (simp add: ace_can_write_def acl_get_unique [OF assms])
qed

text \<open>The first two steps of \<open>ace_can_read\<close> do not depend on the state of the other entries.\<close>

lemma can_read_owner: "ace_can_read s obj (Some (owner obj)) = Inr True"
  by (simp add: ace_can_read_def)

lemma can_read_public: "ace_is_public s obj = Inr True \<Longrightarrow> ace_can_read s obj u = Inr True"
  by (simp add: ace_can_read_def)

subsection \<open>What the two mutators do to the store\<close>

text \<open>\<open>read\<close> is not an attribute of an entry: the flag is called \<open>permission_read\<close>.\<close>

lemma getattr_read: "ace_getattr a ''read'' = Inl AttributeError"
  by (simp add: ace_getattr_def)

lemma make_public_unfold:
  "ace_make_public obj u now s =
     (case ace_can_write s obj u of
        Inl e \<Rightarrow> (Inl e, s)
      | Inr w \<Rightarrow>
          if \<not> w then (Inr (), s)
          else
            (case acl_get s obj (\<lambda>a. user a = None) of
               Inr a \<Rightarrow> (Inl AttributeError, s)
             | Inl e \<Rightarrow>
                 if e = ObjectDoesNotExist
                 then (Inr (), acl_create s obj None True now)
                 else (Inl e, s)))"
  by (simp add: ace_make_public_def getattr_read split: sum.splits)

lemma make_public_existing_entry:
  assumes "ace_can_write s obj u = Inr True"
    and "acl_get s obj (\<lambda>a. user a = None) = Inr a"
  shows "ace_make_public obj u now s = (Inl AttributeError, s)"
  using assms by (simp add: make_public_unfold)

lemma snd_make_public:
  "snd (ace_make_public obj u now s) = s \<or>
   (acl_get s obj (\<lambda>a. user a = None) = Inl ObjectDoesNotExist \<and>
    snd (ace_make_public obj u now s) = acl_create s obj None True now)"
  by (simp add: make_public_unfold split: sum.splits)

lemma snd_make_private:
  "snd (ace_make_private obj u s) = s \<or>
   (\<exists>a. acl_get s obj (\<lambda>a. user a = None) = Inr a \<and>
        snd (ace_make_private obj u s) = ace_delete s a)"
  by (simp add: ace_make_private_def split: sum.splits)

lemma acl_create_acl:
  "acl (acl_create s obj u r now) obj' =
     acl s obj' @
     (if model obj = model obj' \<and> pk obj = pk obj'
      then [\<lparr>ace_pk = next_pk s, user = u, permission_read = r, permission_write = False,
             permission_delete = False, content_type = model obj, object_id = pk obj,
             created = now, updated = now\<rparr>]
      else [])"
  by (simp add: acl_def acl_create_def)

lemma acl_delete_acl:
  "acl (ace_delete s a) obj = filter (\<lambda>r. ace_pk r \<noteq> ace_pk a) (acl s obj)"
  by (auto simp: acl_def ace_delete_def intro: filter_cong)

lemma can_write_create_public:
  "ace_can_write (acl_create s obj None r now) obj' u = ace_can_write s obj' u"
  by (simp add: ace_can_write_def acl_get_def acl_create_acl)

lemma can_write_after_make_public:
  "ace_can_write (snd (ace_make_public obj v now s)) obj' u = ace_can_write s obj' u"
  using snd_make_public [of obj v now s] by (auto simp: can_write_create_public)

subsection \<open>Publishing and then making private\<close>

text \<open>
  On an object without a public entry, in a table whose primary keys lie below the
  counter, an authorized actor's \<open>ace_make_public\<close> inserts the public entry and the
  object is public; \<open>ace_make_private\<close> then deletes that entry again. Only the
  primary-key counter has moved, so every read function answers as before.
\<close>

lemma round_trip_without_public_entry:
  assumes auth: "ace_can_write s obj u = Inr True"
    and nopub: "\<forall>a\<in>set (acl s obj). user a \<noteq> None"
    and fresh: "\<forall>r\<in>set (rows s). ace_pk r < next_pk s"
  shows "ace_make_public obj u now s = (Inr (), acl_create s obj None True now)"
    and "ace_is_public (acl_create s obj None True now) obj = Inr True"
    and "make_public_then_private obj u now s = (Inr (), s\<lparr>next_pk := Suc (next_pk s)\<rparr>)"
proof -
  let ?s1 = "acl_create s obj None True now"
  let ?new = "\<lparr>ace_pk = next_pk s, user = None, permission_read = True,
      permission_write = False, permission_delete = False, content_type = model obj,
      object_id = pk obj, created = now, updated = now\<rparr>"
  from nopub have none: "acl_get s obj (\<lambda>a. user a = None) = Inl ObjectDoesNotExist"
    by (simp add: acl_get_DoesNotExist)
  with auth show pub: "ace_make_public obj u now s = (Inr (), ?s1)"
    by (simp add: make_public_unfold)
  have acl1: "acl ?s1 obj = acl s obj @ [?new]"
    by (simp add: acl_create_acl)
  from nopub have f1: "filter (\<lambda>a. user a = None \<and> permission_read a = True) (acl s obj) = []"
    and f2: "filter (\<lambda>a. user a = None) (acl s obj) = []"
    by (simp_all add: filter_empty_conv)
  from f1 show "ace_is_public ?s1 obj = Inr True"
    by (simp add: ace_is_public_def acl_get_def acl1)
  from f2 have get1: "acl_get ?s1 obj (\<lambda>a. user a = None) = Inr ?new"
    by (simp add: acl_get_def acl1)
  from auth have auth1: "ace_can_write ?s1 obj u = Inr True"
    by (simp add: can_write_create_public)
  from fresh have "filter (\<lambda>r. ace_pk r \<noteq> next_pk s) (rows s) = rows s"
    by (auto simp: filter_id_conv)
  then have del: "ace_delete ?s1 ?new = s\<lparr>next_pk := Suc (next_pk s)\<rparr>"
    by (simp add: ace_delete_def acl_create_def)
  from auth1 get1 del
  have "ace_make_private obj u ?s1 = (Inr (), s\<lparr>next_pk := Suc (next_pk s)\<rparr>)"
    by (simp add: ace_make_private_def)
  with pub
  show "make_public_then_private obj u now s = (Inr (), s\<lparr>next_pk := Suc (next_pk s)\<rparr>)"
    by (simp add: make_public_then_private_def)
qed

lemma acl_get_next_pk: "acl_get (s\<lparr>next_pk := n\<rparr>) obj P = acl_get s obj P"
  by (simp add: acl_get_def acl_def)

lemma reads_ignore_next_pk:
  "ace_is_public (s\<lparr>next_pk := n\<rparr>) obj = ace_is_public s obj"
  "ace_can_read (s\<lparr>next_pk := n\<rparr>) obj v = ace_can_read s obj v"
  "ace_can_write (s\<lparr>next_pk := n\<rparr>) obj v = ace_can_write s obj v"
  unfolding ace_is_public_def ace_can_read_def ace_can_write_def acl_get_next_pk
  by (rule refl)+

lemma round_trip_restores_reads:
  assumes "ace_can_write s obj u = Inr True"
    and "\<forall>a\<in>set (acl s obj). user a \<noteq> None"
    and "\<forall>r\<in>set (rows s). ace_pk r < next_pk s"
  shows "fst (make_public_then_private obj u now s) = Inr ()"
    and "ace_is_public (snd (make_public_then_private obj u now s)) obj = Inr False"
    and "ace_can_read (snd (make_public_then_private obj u now s)) obj' v
           = ace_can_read s obj' v"
proof -
  note rt = round_trip_without_public_entry(3) [OF assms]
  from assms(2)
  have "acl_get s obj (\<lambda>a. user a = None \<and> permission_read a = True)
          = Inl ObjectDoesNotExist"
    by (simp add: acl_get_DoesNotExist)
  then have "ace_is_public s obj = Inr False" by (simp add: ace_is_public_def)
  then show "ace_is_public (snd (make_public_then_private obj u now s)) obj = Inr False"
    by (simp add: rt reads_ignore_next_pk)
  show "fst (make_public_then_private obj u now s) = Inr ()"
    by (simp add: rt)
  show "ace_can_read (snd (make_public_then_private obj u now s)) obj' v
          = ace_can_read s obj' v"
    by (simp add: rt reads_ignore_next_pk)
qed

subsection \<open>Preservation of uniqueness\<close>

lemma store_unique_create:
  assumes "store_unique s" and "acl_get s obj (\<lambda>a. user a = None) = Inl ObjectDoesNotExist"
  shows "store_unique (acl_create s obj None r now)"
proof -
  from assms(2) have "\<forall>a\<in>set (acl s obj). user a \<noteq> None"
    by (simp add: acl_get_DoesNotExist)
  then have "(model obj, pk obj, None)
      \<notin> (\<lambda>a. (content_type a, object_id a, user a)) ` set (rows s)"
    by (auto simp: acl_def)
  with assms(1) show ?thesis
    by (simp add: store_unique_def acl_create_def)
qed

lemma store_unique_delete: "store_unique s \<Longrightarrow> store_unique (ace_delete s a)"
  by (simp add: store_unique_def ace_delete_def distinct_map_filter)

lemma store_unique_acl_unique:
  assumes "store_unique s"
  shows "acl_unique s obj"
proof -
  from assms have "distinct (map (\<lambda>a. (content_type a, object_id a, user a)) (acl s obj))"
    unfolding store_unique_def acl_def by (rule distinct_map_filter)
  then have "inj_on (\<lambda>a. (content_type a, object_id a, user a)) (set (acl s obj))"
    and d: "distinct (acl s obj)"
    by (simp_all add: distinct_map)
  then have "inj_on user (set (acl s obj))"
    by (auto simp: inj_on_def acl_def)
  with d show ?thesis by (simp add: acl_unique_def distinct_map)
qed

subsection \<open>The concrete stores satisfy the invariant\<close>

lemma examples_unique:
  "acl_unique empty_store example_sketch"
  "acl_unique shared_store example_sketch"
  "acl_unique unpublished_store example_sketch"
  "acl_unique team_store example_sketch"
  "store_unique team_store"
  "store_unique shared_store"
  by (simp_all add: store_defs model_defs)

section \<open>The read-only functions\<close>

text \<open>
  Claim C6. On an object whose entries are unique per actor, \<open>ace_is_public\<close> returns
  true exactly when a public entry (\<open>user = None\<close>) with \<open>permission_read\<close> set exists:
  it returns false when there is no public entry, and false when the public entry has
  \<open>permission_read\<close> off. It does not raise.
\<close>

theorem is_public_iff_public_read_entry:
  assumes "acl_unique s obj"
  shows "ace_is_public s obj
           = Inr (\<exists>a\<in>set (acl s obj). user a = None \<and> permission_read a) \<and>
         (\<not> (\<exists>a\<in>set (acl s obj). user a = None) \<longrightarrow> ace_is_public s obj = Inr False) \<and>
         ((\<exists>a\<in>set (acl s obj). user a = None \<and> \<not> permission_read a)
            \<longrightarrow> ace_is_public s obj = Inr False)"
proof -
  note eq = is_public_unique [OF assms]
  from assms have inj: "inj_on user (set (acl s obj))"
    by (simp add: acl_unique_def distinct_map)
  have "\<not> (\<exists>a\<in>set (acl s obj). user a = None \<and> permission_read a)"
    if "\<exists>a\<in>set (acl s obj). user a = None \<and> \<not> permission_read a"
  proof
    assume "\<exists>b\<in>set (acl s obj). user b = None \<and> permission_read b"
    then obtain b where b: "b \<in> set (acl s obj)" "user b = None" "permission_read b" by blast
    from that obtain a where a: "a \<in> set (acl s obj)" "user a = None" "\<not> permission_read a"
      by blast
    from inj a(1,2) b(1,2) have "a = b" by (simp add: inj_on_def)
    with a(3) b(3) show False by simp
  qed
  with eq show ?thesis by auto
qed

theorem is_public_iff_public_read_entry_witness:
  "acl_unique shared_store example_sketch \<and>
   ace_is_public shared_store example_sketch = Inr True \<and>
   acl_unique empty_store example_sketch \<and>
   ace_is_public empty_store example_sketch = Inr False \<and>
   acl_unique unpublished_store example_sketch \<and>
   ace_is_public unpublished_store example_sketch = Inr False"
proof -
  have "\<exists>a\<in>set (acl shared_store example_sketch). user a = None \<and> permission_read a"
    by (simp add: store_defs acl_def)
  with is_public_iff_public_read_entry [OF examples_unique(2)]
  have "ace_is_public shared_store example_sketch = Inr True" by simp
  moreover have "\<not> (\<exists>a\<in>set (acl empty_store example_sketch). user a = None)"
    by (simp add: store_defs acl_def)
  with is_public_iff_public_read_entry [OF examples_unique(1)]
  have "ace_is_public empty_store example_sketch = Inr False" by blast
  moreover have "\<exists>a\<in>set (acl unpublished_store example_sketch).
      user a = None \<and> \<not> permission_read a"
    by (simp add: store_defs acl_def)
  with is_public_iff_public_read_entry [OF examples_unique(3)]
  have "ace_is_public unpublished_store example_sketch = Inr False" by blast
  ultimately show ?thesis using examples_unique by simp
qed

text \<open>
  Claim C1. On an object whose entries are unique per actor, \<open>ace_can_read\<close> decides in
  this order: the owner reads; otherwise a public object is readable, whatever the
  actor's own entry says; otherwise the result is the \<open>permission_read\<close> flag of the
  actor's own entry, and false when the actor has none.
\<close>

theorem can_read_precedence:
  assumes "acl_unique s obj"
  shows "ace_can_read s obj u =
           Inr (if Some (owner obj) = u then True
                else if ace_is_public s obj = Inr True then True
                else (case find (\<lambda>a. user a = u) (acl s obj) of
                        None \<Rightarrow> False
                      | Some a \<Rightarrow> permission_read a))"
proof (cases "Some (owner obj) = u")
  case True
  then show ?thesis by (simp add: ace_can_read_def)
next
  case False
  note not_owner = this
  show ?thesis
  proof (cases "ace_is_public s obj = Inr True")
    case True
    with not_owner show ?thesis by (simp add: ace_can_read_def)
  next
    case False
    with is_public_unique [OF assms] have "ace_is_public s obj = Inr False" by simp
    with not_owner False show ?thesis
      by (cases "find (\<lambda>a. user a = u) (acl s obj)")
         (simp_all add: ace_can_read_def acl_get_unique_user [OF assms])
  qed
qed

text \<open>
  In \<open>shared_store\<close> user 2 holds an entry with \<open>permission_read\<close> off and the sketch is
  public: user 2 reads. In \<open>team_store\<close> the sketch is private: the owner and user 2
  (read entry) read, user 4 (no entry) does not.
\<close>

theorem can_read_precedence_witness:
  "acl_unique shared_store example_sketch \<and>
   ace_can_read shared_store example_sketch (Some 2) = Inr True \<and>
   acl_unique team_store example_sketch \<and>
   ace_can_read team_store example_sketch (Some 1) = Inr True \<and>
   ace_can_read team_store example_sketch (Some 2) = Inr True \<and>
   ace_can_read team_store example_sketch (Some 4) = Inr False"
proof -
  have "ace_can_read shared_store example_sketch (Some 2) = Inr True"
    by (simp add: can_read_precedence [OF examples_unique(2)])
       (simp add: store_defs model_defs)
  moreover have "ace_can_read team_store example_sketch (Some 1) = Inr True"
    by (simp add: can_read_precedence [OF examples_unique(4)])
       (simp add: store_defs model_defs)
  moreover have "ace_can_read team_store example_sketch (Some 2) = Inr True"
    by (simp add: can_read_precedence [OF examples_unique(4)])
       (simp add: store_defs model_defs)
  moreover have "ace_can_read team_store example_sketch (Some 4) = Inr False"
    by (simp add: can_read_precedence [OF examples_unique(4)])
       (simp add: store_defs model_defs)
  ultimately show ?thesis using examples_unique by simp
qed

text \<open>
  Claim C10. On an object whose entries are unique per actor, \<open>ace_can_read\<close> called
  with \<open>None\<close> as the actor returns what \<open>ace_is_public\<close> returns. The owner of an
  object is a user, never \<open>None\<close>, so the owner test fails, and the lookup of the
  actor's own entry finds the public entry.
\<close>

theorem anonymous_can_read_is_public:
  assumes "acl_unique s obj"
  shows "ace_can_read s obj None = ace_is_public s obj"
proof (cases "\<exists>a\<in>set (acl s obj). user a = None \<and> permission_read a")
  case True
  then show ?thesis by (simp add: ace_can_read_def is_public_unique [OF assms])
next
  case False
  have "\<not> permission_read a" if "find (\<lambda>a. user a = None) (acl s obj) = Some a" for a
  proof -
    from find_SomeD [OF that] have "a \<in> set (acl s obj)" and "user a = None" by simp_all
    with False show ?thesis by blast
  qed
  with False show ?thesis
    by (cases "find (\<lambda>a. user a = None) (acl s obj)")
       (simp_all add: ace_can_read_def is_public_unique [OF assms]
          acl_get_unique_user [OF assms])
qed

theorem anonymous_can_read_is_public_witness:
  "acl_unique shared_store example_sketch \<and>
   ace_can_read shared_store example_sketch None = Inr True \<and>
   acl_unique unpublished_store example_sketch \<and>
   ace_can_read unpublished_store example_sketch None = Inr False"
proof -
  have "ace_can_read shared_store example_sketch None = Inr True"
    by (simp add: anonymous_can_read_is_public [OF examples_unique(2)])
       (simp add: store_defs model_defs)
  moreover have "ace_can_read unpublished_store example_sketch None = Inr False"
    by (simp add: anonymous_can_read_is_public [OF examples_unique(3)])
       (simp add: store_defs model_defs)
  ultimately show ?thesis using examples_unique by simp
qed

text \<open>
  Claim C4. On an object whose entries are unique per actor, \<open>ace_can_write\<close> returns
  true exactly when the actor is the owner or holds an entry of its own with
  \<open>permission_write\<close> set; whether the object is public plays no part. A call of
  \<open>ace_make_public\<close>, by any actor, changes no result of \<open>ace_can_write\<close>: afterwards
  write access is still decided by the owner and the write entries held before.
\<close>

theorem can_write_iff_owner_or_write_entry:
  assumes "acl_unique s obj"
  shows "ace_can_write s obj u
           = Inr (Some (owner obj) = u \<or>
                  (\<exists>a\<in>set (acl s obj). user a = u \<and> permission_write a)) \<and>
         ace_can_write (snd (ace_make_public obj v now s)) obj u
           = Inr (Some (owner obj) = u \<or>
                  (\<exists>a\<in>set (acl s obj). user a = u \<and> permission_write a))"
  by (simp add: can_write_after_make_public can_write_unique [OF assms])

text \<open>
  In \<open>team_store\<close> user 2 has a read-only entry and user 3 a read-write entry. After the
  owner makes the sketch public it is public, and user 2 still cannot write.
\<close>

theorem can_write_iff_owner_or_write_entry_witness:
  "acl_unique team_store example_sketch \<and>
   ace_can_write team_store example_sketch (Some 1) = Inr True \<and>
   ace_can_write team_store example_sketch (Some 3) = Inr True \<and>
   ace_can_write team_store example_sketch (Some 2) = Inr False \<and>
   ace_is_public (snd (ace_make_public example_sketch (Some 1) 7 team_store)) example_sketch
     = Inr True \<and>
   ace_can_write (snd (ace_make_public example_sketch (Some 1) 7 team_store))
     example_sketch (Some 2) = Inr False"
proof -
  note cw = can_write_iff_owner_or_write_entry [OF examples_unique(4), of _ "Some 1" 7]
  have "ace_can_write team_store example_sketch (Some 1) = Inr True"
    by (simp add: cw) (simp add: store_defs model_defs)
  moreover have "ace_can_write team_store example_sketch (Some 3) = Inr True"
    by (simp add: cw) (simp add: store_defs model_defs)
  moreover have "ace_can_write team_store example_sketch (Some 2) = Inr False"
    by (simp add: cw) (simp add: store_defs model_defs)
  moreover have "ace_can_write (snd (ace_make_public example_sketch (Some 1) 7 team_store))
     example_sketch (Some 2) = Inr False"
    by (simp add: cw) (simp add: store_defs model_defs)
  moreover have "ace_is_public (snd (ace_make_public example_sketch (Some 1) 7 team_store))
     example_sketch = Inr True"
    by (simp add: store_defs model_defs)
  ultimately show ?thesis using examples_unique by simp
qed

section \<open>The mutators\<close>

text \<open>
  Claim C7. When \<open>ace_can_write\<close> returns false for the actor, \<open>ace_make_public\<close> and
  \<open>ace_make_private\<close> return normally and leave the store as it was; in particular
  \<open>ace_is_public\<close> gives the same answer before and after.
\<close>

theorem unauthorized_mutators_are_noops:
  assumes "ace_can_write s obj u = Inr False"
  shows "ace_make_public obj u now s = (Inr (), s) \<and>
         ace_make_private obj u s = (Inr (), s) \<and>
         ace_is_public (snd (ace_make_public obj u now s)) obj' = ace_is_public s obj' \<and>
         ace_is_public (snd (ace_make_private obj u s)) obj' = ace_is_public s obj'"
  using assms by (simp add: ace_make_public_def ace_make_private_def)

text \<open>
  User 2 has a read-only entry in \<open>team_store\<close> (a private sketch) and no entry that
  grants write in \<open>shared_store\<close> (a public one).
\<close>

theorem unauthorized_mutators_are_noops_witness:
  "ace_can_write team_store example_sketch (Some 2) = Inr False \<and>
   ace_make_public example_sketch (Some 2) 7 team_store = (Inr (), team_store) \<and>
   ace_can_write shared_store example_sketch (Some 2) = Inr False \<and>
   ace_make_private example_sketch (Some 2) shared_store = (Inr (), shared_store)"
proof -
  have a: "ace_can_write team_store example_sketch (Some 2) = Inr False"
    by (simp add: store_defs model_defs)
  have b: "ace_can_write shared_store example_sketch (Some 2) = Inr False"
    by (simp add: store_defs model_defs)
  from unauthorized_mutators_are_noops [OF a, of 7]
       unauthorized_mutators_are_noops [OF b, of 7] a b
  show ?thesis by simp
qed

text \<open>
  Claim C8. A table with at most one entry per (object, actor) pair still has that
  property after \<open>ace_make_public\<close> and after \<open>ace_make_private\<close>, whatever the object,
  the actor and the outcome of the call: \<open>ace_make_public\<close> inserts the public entry
  only when the lookup of \<open>user = None\<close> found none, and \<open>ace_make_private\<close> only
  deletes. In particular every object then has at most one public entry.
  \<open>ace_is_public\<close>, \<open>ace_can_read\<close> and \<open>ace_can_write\<close> only query: they are functions
  of the store that return no store.
\<close>

theorem uniqueness_preserved:
  assumes "store_unique s"
  shows "store_unique (snd (ace_make_public obj u now s)) \<and>
         store_unique (snd (ace_make_private obj u s)) \<and>
         length (filter (\<lambda>a. user a = None)
                   (acl (snd (ace_make_public obj u now s)) obj')) \<le> 1 \<and>
         length (filter (\<lambda>a. user a = None)
                   (acl (snd (ace_make_private obj u s)) obj')) \<le> 1"
proof -
  from snd_make_public [of obj u now s] assms
  have pub: "store_unique (snd (ace_make_public obj u now s))"
    by (auto simp: store_unique_create)
  from snd_make_private [of obj u s] assms
  have priv: "store_unique (snd (ace_make_private obj u s))"
    by (auto simp: store_unique_delete)
  have one: "length (filter (\<lambda>a. user a = None) (acl t obj')) \<le> 1" if "store_unique t" for t
  proof -
    from that have "distinct (map user (acl t obj'))"
      using store_unique_acl_unique [of t obj'] by (simp add: acl_unique_def)
    from filter_key_le1 [OF this, of None "\<lambda>a. True"] show ?thesis by simp
  qed
  from pub priv one [OF pub] one [OF priv] show ?thesis by simp
qed

text \<open>
  The owner publishes the sketch of \<open>team_store\<close> (an entry is inserted) and makes the
  sketch of \<open>shared_store\<close> private (an entry is deleted).
\<close>

theorem uniqueness_preserved_witness:
  "store_unique team_store \<and>
   store_unique (snd (ace_make_public example_sketch (Some 1) 7 team_store)) \<and>
   length (rows (snd (ace_make_public example_sketch (Some 1) 7 team_store))) = 3 \<and>
   store_unique shared_store \<and>
   store_unique (snd (ace_make_private example_sketch (Some 1) shared_store)) \<and>
   length (rows (snd (ace_make_private example_sketch (Some 1) shared_store))) = 1"
proof -
  have "length (rows (snd (ace_make_public example_sketch (Some 1) 7 team_store))) = 3"
    by (simp add: store_defs model_defs)
  moreover
  have "length (rows (snd (ace_make_private example_sketch (Some 1) shared_store))) = 1"
    by (simp add: store_defs model_defs)
  ultimately show ?thesis
    using uniqueness_preserved [OF examples_unique(5), of example_sketch "Some 1" 7]
      uniqueness_preserved [OF examples_unique(6), of example_sketch "Some 1" 7]
      examples_unique
    by simp
qed

section \<open>Where the code departs from its description\<close>

text \<open>
  Claim C2. With a public entry present and an authorized actor, \<open>ace_make_public\<close>
  should do nothing when \<open>permission_read\<close> is already set and should set and save it
  otherwise, without raising. The code tests \<open>ace.read\<close>, which is not an attribute of
  an entry, so the call raises \<open>AttributeError\<close> in both cases and writes nothing. In
  \<open>unpublished_store\<close> the public entry has \<open>permission_read\<close> off: the owner's call
  raises and the sketch stays non-public. In \<open>shared_store\<close> the public entry has
  \<open>permission_read\<close> set: the owner's call raises as well.
\<close>

theorem make_public_existing_entry_raises:
  "ace_can_write unpublished_store example_sketch (Some 1) = Inr True \<and>
   acl_get unpublished_store example_sketch (\<lambda>a. user a = None)
     = Inr (sketch_entry 1 None False False) \<and>
   ace_make_public example_sketch (Some 1) now unpublished_store
     = (Inl AttributeError, unpublished_store) \<and>
   ace_is_public (snd (ace_make_public example_sketch (Some 1) now unpublished_store))
     example_sketch = Inr False \<and>
   acl_get shared_store example_sketch (\<lambda>a. user a = None)
     = Inr (sketch_entry 2 None True False) \<and>
   ace_make_public example_sketch (Some 1) now shared_store
     = (Inl AttributeError, shared_store)"
  by (simp add: store_defs model_defs)

text \<open>
  Claim C3. Calling \<open>ace_make_public\<close> twice in a row should succeed twice and leave
  one public entry. On the sketch of \<open>empty_store\<close> the owner's first call inserts the
  public entry and the sketch is public; the second call finds that entry, evaluates
  \<open>ace.read\<close> and raises \<open>AttributeError\<close>. The store still holds the one public entry.
\<close>

theorem make_public_twice_raises:
  "ace_make_public example_sketch (Some 1) now empty_store
     = (Inr (), \<lparr>rows = [sketch_entry 1 None True False\<lparr>created := now, updated := now\<rparr>],
                 next_pk = 2\<rparr>) \<and>
   ace_is_public (snd (ace_make_public example_sketch (Some 1) now empty_store))
     example_sketch = Inr True \<and>
   ace_make_public example_sketch (Some 1) later
       (snd (ace_make_public example_sketch (Some 1) now empty_store))
     = (Inl AttributeError, snd (ace_make_public example_sketch (Some 1) now empty_store))"
  by (simp add: store_defs model_defs)

text \<open>
  Claim C9. An authorized actor's \<open>make_public\<close> followed by \<open>make_private\<close> should
  leave the object non-public and unreadable for actors, other than the owner, without
  an entry of their own. On a sketch that already has a public entry the first call
  evaluates \<open>ace.read\<close> and raises \<open>AttributeError\<close>, so the second call is not run and
  nothing changes. In \<open>shared_store\<close> the sketch is public and user 4, who has no entry,
  reads it: after the owner's two calls the sketch is still public and user 4 still
  reads it. In \<open>unpublished_store\<close> the two calls raise as well. (Without a public entry
  beforehand the two calls do what is claimed: \<open>round_trip_restores_reads\<close>.)
\<close>

theorem make_public_then_private_raises:
  "ace_can_write shared_store example_sketch (Some 1) = Inr True \<and>
   ace_can_read shared_store example_sketch (Some 4) = Inr True \<and>
   make_public_then_private example_sketch (Some 1) now shared_store
     = (Inl AttributeError, shared_store) \<and>
   ace_is_public (snd (make_public_then_private example_sketch (Some 1) now shared_store))
     example_sketch = Inr True \<and>
   ace_can_read (snd (make_public_then_private example_sketch (Some 1) now shared_store))
     example_sketch (Some 4) = Inr True \<and>
   ace_can_write unpublished_store example_sketch (Some 1) = Inr True \<and>
   make_public_then_private example_sketch (Some 1) now unpublished_store
     = (Inl AttributeError, unpublished_store)"
  by (simp add: store_defs model_defs)

text \<open>
  Claim C5. \<open>get_collaborators\<close> should return the actors, other than the owner and the
  public, that hold an entry on the sketch. The loop adds \<open>ace\<close>, not \<open>ace.user\<close>: the
  result is a set of entries. On \<open>team_store\<close> it is the two entries of users 2 and 3,
  not the users 2 and 3; the users are what one gets by reading \<open>user\<close> off the result.
\<close>

theorem get_collaborators_returns_entries:
  "get_collaborators team_store example_sketch
     = {sketch_entry 1 (Some 2) True False, sketch_entry 2 (Some 3) True True} \<and>
   user ` get_collaborators team_store example_sketch = {Some 2, Some 3}"
  by (auto simp add: store_defs model_defs)

end
